theory Spec2Isabelle
  imports Main
begin

section \<open>Python values\<close>

text \<open>
  The program is Python. A \<open>str\<close> is modelled as a HOL \<open>string\<close>, one \<open>char\<close> per
  code point, which covers the code points U+0000 to U+00FF; on these the two string
  methods the program calls, \<open>str.strip()\<close> and \<open>str.lower()\<close>, are written out below
  as CPython computes them.
\<close>

text \<open>\<open>str.isspace\<close> on one code point below U+0100: TAB to CR, FS to US, SPACE, NEL, NBSP.\<close>

definition isspace :: "char \<Rightarrow> bool" where
  "isspace c =
     (let n = (of_char c :: nat)
      in (9 \<le> n \<and> n \<le> 13) \<or> (28 \<le> n \<and> n \<le> 32) \<or> n = 133 \<or> n = 160)"

text \<open>\<open>s.strip()\<close> with no argument: whitespace is removed at both ends.\<close>

definition str_strip :: "string \<Rightarrow> string" where
  "str_strip s = rev (dropWhile isspace (rev (dropWhile isspace s)))"

text \<open>
  Lower-casing of one code point below U+0100: \<open>A\<close> to \<open>Z\<close> and the Latin-1 capitals
  U+00C0 to U+00DE (the multiplication sign U+00D7 apart) move up by 32.
\<close>

definition to_lower :: "char \<Rightarrow> char" where
  "to_lower c =
     (let n = (of_char c :: nat)
      in if (65 \<le> n \<and> n \<le> 90) \<or> (192 \<le> n \<and> n \<le> 222 \<and> n \<noteq> 215)
         then char_of (n + 32) else c)"

definition str_lower :: "string \<Rightarrow> string" where
  "str_lower s = map to_lower s"

text \<open>\<open>sep.join(parts)\<close>.\<close>

fun str_join :: "string \<Rightarrow> string list \<Rightarrow> string" where
  "str_join sep [] = []"
| "str_join sep [x] = x"
| "str_join sep (x # y # ys) = x @ sep @ str_join sep (y # ys)"

text \<open>
  A Python float, as far as the program looks at it: it is only tested for truth
  (zero of either sign is false, everything else, NaN included, is true) and stored.
\<close>

datatype py_float = Finite bool nat int | Infinity bool | NaN

text \<open>
  The values \<open>json.loads\<close> can return. A \<open>dict\<close> is an association list read with
  \<open>map_of\<close>.
\<close>

datatype py_value =
    PyNone
  | PyBool bool
  | PyInt int
  | PyFloat py_float
  | PyStr string
  | PyList "py_value list"
  | PyDict "(string \<times> py_value) list"

text \<open>Python's truth test, used by \<open>not x\<close> and by \<open>x or y\<close>.\<close>

fun truthy :: "py_value \<Rightarrow> bool" where
  "truthy PyNone = False"
| "truthy (PyBool b) = b"
| "truthy (PyInt i) = (i \<noteq> 0)"
| "truthy (PyFloat f) = (case f of Finite _ m _ \<Rightarrow> m \<noteq> 0 | _ \<Rightarrow> True)"
| "truthy (PyStr s) = (s \<noteq> [])"
| "truthy (PyList xs) = (xs \<noteq> [])"
| "truthy (PyDict kvs) = (kvs \<noteq> [])"

text \<open>\<open>x or y\<close>: \<open>x\<close> when it is true, otherwise \<open>y\<close>.\<close>

definition py_or :: "py_value \<Rightarrow> py_value \<Rightarrow> py_value" where
  "py_or x y = (if truthy x then x else y)"

text \<open>
  Exceptions. \<open>Exception msg\<close> is any \<open>Exception\<close> raised by code outside the
  program (the chain, \<open>json.loads\<close>), with \<open>str(exc) = msg\<close>; \<open>AttributeError\<close> is what
  Python raises when a method is looked up on a value that does not have it.
\<close>

datatype py_error = Exception string | AttributeError string

text \<open>
  \<open>data.get(key)\<close>: on a \<open>dict\<close> the stored value, or \<open>None\<close> for a missing key; every
  other value \<open>json.loads\<close> returns has no attribute \<open>get\<close>.
\<close>

definition py_get :: "py_value \<Rightarrow> string \<Rightarrow> py_error + py_value" where
  "py_get data key =
     (case data of
        PyDict kvs \<Rightarrow> Inr (case map_of kvs key of None \<Rightarrow> PyNone | Some v \<Rightarrow> v)
      | _ \<Rightarrow> Inl (AttributeError ''get''))"

section \<open>models.py\<close>

text \<open>
  Modelled from the spec: \<open>models.py\<close> (Severity, DriftType, CodeChange,
  DocumentationReference, DriftCandidate, DriftIssue, DriftReport) is not among the
  sources. The types below follow section 3 of the specification and the attributes the
  sources read. Fields of different classes that share a name carry a prefix here.
  Constructing a \<open>DriftIssue\<close> stores its arguments and checks nothing.
\<close>

datatype Severity = LOW | MEDIUM | CRITICAL

fun severity_value :: "Severity \<Rightarrow> string" where
  "severity_value LOW = ''low''"
| "severity_value MEDIUM = ''medium''"
| "severity_value CRITICAL = ''critical''"

text \<open>The members of the enumeration, as \<open>for severity in Severity\<close> visits them.\<close>

definition all_severities :: "Severity list" where
  "all_severities = [LOW, MEDIUM, CRITICAL]"

datatype DriftType =
    SIGNATURE_CHANGE
  | BEHAVIOR_CHANGE
  | REMOVED_WITHOUT_DOC_UPDATE
  | MISSING_EXAMPLE_UPDATE
  | STALE_INLINE_COMMENT
  | UNDOCUMENTED_ADDITION

fun drift_type_value :: "DriftType \<Rightarrow> string" where
  "drift_type_value SIGNATURE_CHANGE = ''signature_change''"
| "drift_type_value BEHAVIOR_CHANGE = ''behavior_change''"
| "drift_type_value REMOVED_WITHOUT_DOC_UPDATE = ''removed_without_doc_update''"
| "drift_type_value MISSING_EXAMPLE_UPDATE = ''missing_example_update''"
| "drift_type_value STALE_INLINE_COMMENT = ''stale_inline_comment''"
| "drift_type_value UNDOCUMENTED_ADDITION = ''undocumented_addition''"

record CodeChange =
  change_file_path :: string
  symbol :: "string option"
  old_code :: "string option"
  new_code :: "string option"
  change_summary :: string

record DocumentationReference =
  ref_file_path :: string
  snippet :: string
  changed :: bool

record DriftCandidate =
  change :: CodeChange
  documentation :: "DocumentationReference list"
  candidate_drift_type :: DriftType
  description :: string

record DriftIssue =
  drift_type :: DriftType
  severity :: Severity
  file_path :: string
  summary :: py_value
  suggestion :: py_value
  code_snippet :: string
  documentation_snippet :: py_value
  metadata :: "(string \<times> string option) list"

record DriftReport =
  issues :: "DriftIssue list"
  run_metadata :: "(string \<times> string option) list"

section \<open>config.py\<close>

text \<open>\<open>_env_bool\<close> (config.py, lines 47 to 50).\<close>

fun env_bool :: "string option \<Rightarrow> bool \<Rightarrow> bool" where
  "env_bool None dflt = dflt"
| "env_bool (Some v) dflt =
     (str_lower (str_strip v) \<in> set [''1'', ''true'', ''yes'', ''on''])"

record AnalysisSettings =
  severity_threshold :: string
  auto_ignore_private_functions :: bool
  check_examples :: bool
  check_inline_comments :: bool

text \<open>
  \<open>report_path\<close> is a \<open>pathlib.Path\<close>; the type of paths is the parameter
  \<open>'path\<close>.
\<close>

record 'path OutputSettings =
  format :: string
  save_report :: bool
  report_path :: 'path

text \<open>\<open>os.getenv(name, dflt)\<close> on the process environment \<open>env\<close>.\<close>

definition getenv_or :: "(string \<Rightarrow> string option) \<Rightarrow> string \<Rightarrow> string \<Rightarrow> string" where
  "getenv_or env name dflt = (case env name of None \<Rightarrow> dflt | Some v \<Rightarrow> v)"

text \<open>
  \<open>load_settings\<close>, lines 71 to 78 and 80 to 84: the analysis and the output settings
  read from the environment (as it is after \<open>load_dotenv()\<close>). The constructor
  \<open>Path\<close> of the standard library, which line 83 applies to the text read, is the
  parameter \<open>path\<close>.
\<close>

definition load_settings_analysis :: "(string \<Rightarrow> string option) \<Rightarrow> AnalysisSettings" where
  "load_settings_analysis env =
     \<lparr> severity_threshold = getenv_or env ''SEVERITY_THRESHOLD'' ''low'',
       auto_ignore_private_functions = env_bool (env ''AUTO_IGNORE_PRIVATE_FUNCTIONS'') True,
       check_examples = env_bool (env ''CHECK_EXAMPLES'') True,
       check_inline_comments = env_bool (env ''CHECK_INLINE_COMMENTS'') True \<rparr>"

definition load_settings_output ::
  "(string \<Rightarrow> 'path) \<Rightarrow> (string \<Rightarrow> string option) \<Rightarrow> 'path OutputSettings" where
  "load_settings_output path env =
     \<lparr> format = getenv_or env ''OUTPUT_FORMAT'' ''terminal'',
       save_report = env_bool (env ''SAVE_REPORT'') False,
       report_path = path (getenv_or env ''REPORT_PATH'' ''./drift_reports'') \<rparr>"

section \<open>llm.py\<close>

text \<open>The dictionary \<open>prompt_inputs\<close> handed to the chain: the outbound request.\<close>

record prompt_inputs =
  p_drift_type :: string
  p_code_change :: string
  p_documentation :: string
  p_doc_changed :: string
  p_candidate_description :: string

text \<open>
  What the program can observe of the world: the requests sent to the chain so far, and
  the warnings written to the logger.
\<close>

record world =
  calls :: "prompt_inputs list"
  warnings :: "string list"

text \<open>
  \<open>LLMClient\<close>. \<open>chain\<close> is \<open>self._chain.invoke\<close>, the external text-generation
  capability: given the requests it has already received and the present one, it returns
  a text or raises. \<open>chat_model_name\<close> is \<open>type(self.chat_model).__name__\<close>.
\<close>

record LLMClient =
  chat_model_name :: string
  chain :: "prompt_inputs list \<Rightarrow> prompt_inputs \<Rightarrow> py_error + string"

text \<open>\<open>str(exc)\<close>.\<close>

fun error_str :: "py_error \<Rightarrow> string" where
  "error_str (Exception msg) = msg"
| "error_str (AttributeError msg) = msg"

text \<open>\<open>x or y\<close> for an optional string \<open>x\<close>: \<open>None\<close> and the empty string are false.\<close>

definition opt_or :: "string option \<Rightarrow> string \<Rightarrow> string" where
  "opt_or x y = (case x of None \<Rightarrow> y | Some s \<Rightarrow> if s = [] then y else s)"

text \<open>\<open>candidate.change.new_code or candidate.change.old_code or ""\<close> (lines 142 and 171).\<close>

definition code_text :: "CodeChange \<Rightarrow> string" where
  "code_text ch = opt_or (new_code ch) (opt_or (old_code ch) [])"

definition newline :: string where
  "newline = [CHR 0x0A]"

text \<open>\<open>str(b)\<close> for a bool, as the f-string of line 131 formats \<open>ref.changed\<close>.\<close>

definition str_of_bool :: "bool \<Rightarrow> string" where
  "str_of_bool b = (if b then ''True'' else ''False'')"

text \<open>Lines 126 to 146 of \<open>generate_issue\<close>.\<close>

definition build_prompt :: "DriftCandidate \<Rightarrow> prompt_inputs" where
  "build_prompt candidate =
     (let documentation_text =
            map (\<lambda>r. ref_file_path r @ '' (changed='' @ str_of_bool (changed r) @ ''):''
                       @ newline @ snippet r)
                (documentation candidate);
          doc_changed = map (\<lambda>r. if changed r then ''yes'' else ''no'') (documentation candidate);
          documentation_text' =
            (if documentation_text = [] then [''No related documentation found.'']
             else documentation_text);
          doc_changed' = (if documentation_text = [] then [''n/a''] else doc_changed)
      in \<lparr> p_drift_type = drift_type_value (candidate_drift_type candidate),
           p_code_change = change_summary (change candidate) @ newline @ newline
                             @ code_text (change candidate),
           p_documentation =
             str_join (newline @ newline @ ''---'' @ newline @ newline) documentation_text',
           p_doc_changed = str_join '', '' doc_changed',
           p_candidate_description = description candidate \<rparr>)"

text \<open>
  \<open>_parse_severity\<close> (lines 180 to 187). The parameter is annotated \<open>Optional[str]\<close>;
  \<open>generate_issue\<close> passes whatever the response holds under \<open>severity\<close>, and a true
  value that is not a string has no method \<open>strip\<close>.
\<close>

definition parse_severity :: "py_value \<Rightarrow> Severity \<Rightarrow> py_error + Severity" where
  "parse_severity v dflt =
     (if \<not> truthy v then Inr dflt
      else case v of
        PyStr s \<Rightarrow>
          (let normalized = str_lower (str_strip s)
           in case find (\<lambda>sev. severity_value sev = normalized) all_severities of
                Some sev \<Rightarrow> Inr sev
              | None \<Rightarrow> Inr dflt)
      | _ \<Rightarrow> Inl (AttributeError ''strip''))"

text \<open>The dictionary built by the exception handler (lines 153 to 158).\<close>

definition fallback_data :: "DriftCandidate \<Rightarrow> Severity \<Rightarrow> py_value" where
  "fallback_data candidate fallback_severity =
     PyDict [(''summary'', PyStr (description candidate)),
             (''severity'', PyStr (severity_value fallback_severity)),
             (''suggestion'', PyStr ''Review and update related documentation accordingly.''),
             (''doc_excerpt'', PyNone)]"

text \<open>
  Lines 160 to 177: the issue built from \<open>data\<close>. These lines are outside the
  \<open>try\<close>, so an exception raised here leaves \<open>generate_issue\<close>.
\<close>

definition issue_from_data ::
  "string \<Rightarrow> DriftCandidate \<Rightarrow> Severity \<Rightarrow> py_value \<Rightarrow> py_error + DriftIssue" where
  "issue_from_data provider candidate fallback_severity data =
     (case py_get data ''severity'' of Inl e \<Rightarrow> Inl e | Inr sv \<Rightarrow>
     (case parse_severity sv fallback_severity of Inl e \<Rightarrow> Inl e | Inr sev \<Rightarrow>
     (case py_get data ''suggestion'' of Inl e \<Rightarrow> Inl e | Inr sg \<Rightarrow>
     (case py_get data ''summary'' of Inl e \<Rightarrow> Inl e | Inr sm \<Rightarrow>
     (case py_get data ''doc_excerpt'' of Inl e \<Rightarrow> Inl e | Inr doc_excerpt \<Rightarrow>
        Inr \<lparr> drift_type = candidate_drift_type candidate,
              severity = sev,
              file_path = change_file_path (change candidate),
              summary = py_or sm (PyStr (description candidate)),
              suggestion = py_or sg (PyStr (description candidate)),
              code_snippet = code_text (change candidate),
              documentation_snippet = doc_excerpt,
              metadata = [(''provider'', Some provider),
                          (''symbol'', symbol (change candidate))] \<rparr>)))))"

text \<open>
  \<open>LLMClient.generate_issue\<close> (lines 120 to 177). \<open>json_loads\<close> is the standard
  library's \<open>json.loads\<close>: it returns the decoded value or raises. The \<open>try\<close> of lines
  148 to 150 covers the call of the chain and the decoding; \<open>except Exception\<close> logs a
  warning and substitutes \<open>fallback_data\<close>. The keyword argument \<open>fallback_severity\<close>
  (default \<open>MEDIUM\<close>) is an ordinary argument here.
\<close>

definition generate_issue ::
  "(string \<Rightarrow> py_error + py_value) \<Rightarrow> LLMClient \<Rightarrow> DriftCandidate \<Rightarrow> Severity \<Rightarrow> world
     \<Rightarrow> world \<times> (py_error + DriftIssue)" where
  "generate_issue json_loads client candidate fallback_severity w =
     (let inputs = build_prompt candidate;
          w1 = w\<lparr>calls := calls w @ [inputs]\<rparr>;
          attempt = (case chain client (calls w) inputs of
                       Inl exc \<Rightarrow> Inl exc
                     | Inr raw \<Rightarrow> json_loads raw)
      in case attempt of
           Inl exc \<Rightarrow>
             (w1\<lparr>warnings := warnings w1
                     @ [''LLM suggestion failed ('' @ error_str exc @ ''). Using fallback.'']\<rparr>,
              issue_from_data (chat_model_name client) candidate fallback_severity
                (fallback_data candidate fallback_severity))
         | Inr data \<Rightarrow>
             (w1, issue_from_data (chat_model_name client) candidate fallback_severity data))"

section \<open>cli.py\<close>

text \<open>\<open>_has_critical_issues\<close> (lines 131 and 132).\<close>

definition has_critical_issues :: "DriftReport \<Rightarrow> bool" where
  "has_critical_issues report = list_ex (\<lambda>issue. severity issue = CRITICAL) (issues report)"

text \<open>
  The collaborators of \<open>run_cli\<close>, none of them among the sources: \<open>detect\<close> is what
  lines 65 to 97 end with (the report of \<open>detector.run\<close>, or the exception that leaves
  \<open>run_cli\<close> there); \<open>render\<close> and \<open>save\<close> are the two methods of
  \<open>ReportRenderer\<close>; \<open>save_report_setting\<close> is \<open>settings.output.save_report\<close>.
\<close>

record cli_env =
  detect :: "py_error + DriftReport"
  render :: "DriftReport \<Rightarrow> py_error + string"
  save_report_setting :: bool
  save :: "DriftReport \<Rightarrow> py_error + string"

text \<open>\<open>run_cli\<close> (lines 64 to 109): the lines printed and the exit code returned.\<close>

definition run_cli :: "cli_env \<Rightarrow> py_error + (string list \<times> int)" where
  "run_cli env =
     (case detect env of Inl e \<Rightarrow> Inl e | Inr report \<Rightarrow>
     (case render env report of Inl e \<Rightarrow> Inl e | Inr output \<Rightarrow>
     (case (if save_report_setting env
            then (case save env report of
                    Inl e \<Rightarrow> Inl e
                  | Inr saved_path \<Rightarrow> Inr [output, newline @ ''Report saved to '' @ saved_path])
            else Inr [output]) of
        Inl e \<Rightarrow> Inl e
      | Inr printed \<Rightarrow> Inr (printed, if has_critical_issues report then 1 else 0))))"

section \<open>Sample inputs\<close>

text \<open>A candidate for a renamed function whose documentation was left alone.\<close>

definition sample_candidate :: DriftCandidate where
  "sample_candidate =
     \<lparr> change = \<lparr> change_file_path = ''pkg/api.py'', symbol = Some ''fetch'',
                  old_code = Some ''def fetch(url): ...'',
                  new_code = Some ''def fetch_url(url): ...'',
                  change_summary = ''Modified fetch'' \<rparr>,
       documentation = [\<lparr> ref_file_path = ''docs/api.md'', snippet = ''Call fetch(url).'',
                          changed = False \<rparr>],
       candidate_drift_type = SIGNATURE_CHANGE,
       description = ''fetch changed but docs/api.md did not'' \<rparr>"

text \<open>A candidate for a removed function: the old text is there, the new text is empty.\<close>

definition removed_candidate :: DriftCandidate where
  "removed_candidate =
     \<lparr> change = \<lparr> change_file_path = ''pkg/api.py'', symbol = Some ''fetch'',
                  old_code = Some ''def fetch(url): ...'',
                  new_code = Some [],
                  change_summary = ''Removed fetch'' \<rparr>,
       documentation = [],
       candidate_drift_type = REMOVED_WITHOUT_DOC_UPDATE,
       description = ''fetch was removed but is still documented'' \<rparr>"

definition empty_world :: world where
  "empty_world = \<lparr> calls = [], warnings = [] \<rparr>"

text \<open>A client whose chain answers every request with \<open>raw\<close>, and one whose chain raises.\<close>

definition client_returning :: "string \<Rightarrow> LLMClient" where
  "client_returning raw = \<lparr> chat_model_name = ''ChatOllama'', chain = (\<lambda>_ _. Inr raw) \<rparr>"

definition client_raising :: "string \<Rightarrow> LLMClient" where
  "client_raising msg = \<lparr> chat_model_name = ''ChatOllama'', chain = (\<lambda>_ _. Inl (Exception msg)) \<rparr>"

text \<open>
  Four JSON documents: an array, an object without severity and suggestion, an object
  that repeats the fallback text for \<open>sample_candidate\<close> at severity medium, and an
  object with a severity the program does not know.
\<close>

definition doc_array :: string where
  \<open>doc_array = ''[]''\<close>

definition doc_partial :: string where
  \<open>doc_partial = ''{"summary": "Renamed fetch to fetch_url"}''\<close>

definition doc_generic :: string where
  \<open>doc_generic = ''{"summary": "fetch changed but docs/api.md did not", "severity": "medium", "suggestion": "Review and update related documentation accordingly.", "doc_excerpt": null}''\<close>

definition doc_urgent :: string where
  \<open>doc_urgent = ''{"summary": "fetch was renamed", "severity": "urgent", "suggestion": "Rename fetch in docs/api.md"}''\<close>

text \<open>
  \<open>json.loads\<close> on the texts the examples use: the four documents decode to the values
  shown; the examples give it one more text, \<open>not json\<close>, on which it raises. Its value
  on any other text is not used.
\<close>

definition json_loads_sample :: "string \<Rightarrow> py_error + py_value" where
  "json_loads_sample s =
     (if s = doc_array then Inr (PyList [])
      else if s = doc_partial then
        Inr (PyDict [(''summary'', PyStr ''Renamed fetch to fetch_url'')])
      else if s = doc_generic then
        Inr (PyDict [(''summary'', PyStr ''fetch changed but docs/api.md did not''),
                     (''severity'', PyStr ''medium''),
                     (''suggestion'', PyStr ''Review and update related documentation accordingly.''),
                     (''doc_excerpt'', PyNone)])
      else if s = doc_urgent then
        Inr (PyDict [(''summary'', PyStr ''fetch was renamed''),
                     (''severity'', PyStr ''urgent''),
                     (''suggestion'', PyStr ''Rename fetch in docs/api.md'')])
      else Inl (Exception ''Expecting value: line 1 column 1 (char 0)''))"

text \<open>A report with one critical issue, and a run of the command line that prints it.\<close>

definition sample_report :: DriftReport where
  "sample_report =
     \<lparr> issues = [\<lparr> drift_type = REMOVED_WITHOUT_DOC_UPDATE, severity = CRITICAL,
                    file_path = ''pkg/api.py'',
                    summary = PyStr ''fetch was removed but is still documented'',
                    suggestion = PyStr ''Delete the section on fetch'',
                    code_snippet = ''def fetch(url): ...'',
                    documentation_snippet = PyNone,
                    metadata = [(''provider'', Some ''ChatOllama''), (''symbol'', Some ''fetch'')] \<rparr>],
       run_metadata = [(''since'', Some ''HEAD~1'')] \<rparr>"

definition sample_cli_env :: cli_env where
  "sample_cli_env =
     \<lparr> detect = Inr sample_report,
       render = (\<lambda>_. Inr ''1 issue''),
       save_report_setting = False,
       save = (\<lambda>_. Inl (Exception ''read-only file system'')) \<rparr>"

section \<open>The claims' vocabulary\<close>

text \<open>
  The external call fails: the chain raises, or the text it returns does not decode.
  This is the condition under which the handler of lines 151 to 158 runs.
\<close>

definition call_fails ::
  "(string \<Rightarrow> py_error + py_value) \<Rightarrow> LLMClient \<Rightarrow> DriftCandidate \<Rightarrow> world \<Rightarrow> bool" where
  "call_fails json_loads client candidate w =
     (case chain client (calls w) (build_prompt candidate) of
        Inl _ \<Rightarrow> True
      | Inr raw \<Rightarrow> (case json_loads raw of Inl _ \<Rightarrow> True | Inr _ \<Rightarrow> False))"

section \<open>Auxiliary facts\<close>

lemma norm_low: "str_lower (str_strip ''low'') = ''low''"
  by code_simp

lemma norm_medium: "str_lower (str_strip ''medium'') = ''medium''"
  by code_simp

lemma norm_critical: "str_lower (str_strip ''critical'') = ''critical''"
  by code_simp

lemma parse_severity_own_value: "parse_severity (PyStr (severity_value sev)) d = Inr sev"
  by (cases sev)
     (simp_all add: parse_severity_def all_severities_def norm_low norm_medium norm_critical)

lemma issue_from_fallback_data:
  "issue_from_data provider c sev (fallback_data c sev) =
     Inr \<lparr> drift_type = candidate_drift_type c, severity = sev,
           file_path = change_file_path (change c),
           summary = PyStr (description c),
           suggestion = PyStr ''Review and update related documentation accordingly.'',
           code_snippet = code_text (change c),
           documentation_snippet = PyNone,
           metadata = [(''provider'', Some provider), (''symbol'', symbol (change c))] \<rparr>"
  by (simp add: issue_from_data_def fallback_data_def py_get_def parse_severity_own_value
        py_or_def)

lemma fst_generate_issue_calls:
  "calls (fst (generate_issue jl client c sev w)) = calls w @ [build_prompt c]"
  by (simp add: generate_issue_def Let_def split: sum.splits)

lemma snd_generate_issue_failed:
  assumes "call_fails jl client c w"
  shows "snd (generate_issue jl client c sev w) =
           issue_from_data (chat_model_name client) c sev (fallback_data c sev)"
  using assms by (auto simp: generate_issue_def call_fails_def Let_def split: sum.splits)

lemma snd_generate_issue_decoded:
  assumes "chain client (calls w) (build_prompt c) = Inr raw" and "jl raw = Inr data"
  shows "snd (generate_issue jl client c sev w) =
           issue_from_data (chat_model_name client) c sev data"
  using assms by (simp add: generate_issue_def Let_def)

lemma warnings_generate_issue_failed:
  assumes "call_fails jl client c w"
  shows "length (warnings (fst (generate_issue jl client c sev w))) = Suc (length (warnings w))"
  using assms by (auto simp: generate_issue_def call_fails_def Let_def split: sum.splits)

lemma warnings_generate_issue_decoded:
  assumes "chain client (calls w) (build_prompt c) = Inr raw" and "jl raw = Inr data"
  shows "warnings (fst (generate_issue jl client c sev w)) = warnings w"
  using assms by (simp add: generate_issue_def Let_def)


lemma isspace_to_lower: "isspace (to_lower c) = isspace c"
  by (auto simp: isspace_def to_lower_def Let_def)

lemma dropWhile_isspace_lower:
  "dropWhile isspace (map to_lower s) = map to_lower (dropWhile isspace s)"
  by (induction s) (simp_all add: isspace_to_lower)

lemma strip_lower_commute: "str_strip (str_lower s) = str_lower (str_strip s)"
  by (simp add: str_strip_def str_lower_def dropWhile_isspace_lower rev_map)

lemma parse_severity_str:
  "parse_severity (PyStr s) d =
     Inr (if str_lower (str_strip s) = ''low'' then LOW
          else if str_lower (str_strip s) = ''medium'' then MEDIUM
          else if str_lower (str_strip s) = ''critical'' then CRITICAL
          else d)"
proof (cases "s = []")
  case True
  have "str_lower (str_strip []) = []" by (simp add: str_lower_def str_strip_def)
  with True show ?thesis by (simp add: parse_severity_def)
next
  case False
  then show ?thesis by (simp add: parse_severity_def all_severities_def Let_def)
qed

lemma parse_severity_falsy: "\<not> truthy v \<Longrightarrow> parse_severity v d = Inr d"
  by (simp add: parse_severity_def)

lemma issue_from_dict:
  assumes "parse_severity (case map_of kvs ''severity'' of None \<Rightarrow> PyNone | Some v \<Rightarrow> v) sev
             = Inr sev'"
  shows "issue_from_data provider c sev (PyDict kvs) =
     Inr \<lparr> drift_type = candidate_drift_type c, severity = sev',
           file_path = change_file_path (change c),
           summary = py_or (case map_of kvs ''summary'' of None \<Rightarrow> PyNone | Some v \<Rightarrow> v)
                       (PyStr (description c)),
           suggestion = py_or (case map_of kvs ''suggestion'' of None \<Rightarrow> PyNone | Some v \<Rightarrow> v)
                          (PyStr (description c)),
           code_snippet = code_text (change c),
           documentation_snippet =
             (case map_of kvs ''doc_excerpt'' of None \<Rightarrow> PyNone | Some v \<Rightarrow> v),
           metadata = [(''provider'', Some provider), (''symbol'', symbol (change c))] \<rparr>"
  using assms by (simp add: issue_from_data_def py_get_def)

lemma sample_call_raises:
  "call_fails json_loads_sample (client_raising msg) c w"
  by (simp add: call_fails_def client_raising_def)

lemma sample_call_undecodable:
  "call_fails json_loads_sample (client_returning ''not json'') c w"
proof -
  have "json_loads_sample ''not json'' = Inl (Exception ''Expecting value: line 1 column 1 (char 0)'')"
    by code_simp
  then show ?thesis by (simp add: call_fails_def client_returning_def)
qed

lemma code_text_cases:
  "code_text ch =
     (case new_code ch of
        Some s \<Rightarrow> if s \<noteq> [] then s else (case old_code ch of Some t \<Rightarrow> t | None \<Rightarrow> [])
      | None \<Rightarrow> (case old_code ch of Some t \<Rightarrow> t | None \<Rightarrow> []))"
  by (simp add: code_text_def opt_or_def split: option.splits)

lemma issue_from_data_code_snippet:
  "issue_from_data provider c sev data = Inr issue \<Longrightarrow> code_snippet issue = code_text (change c)"
  by (auto simp: issue_from_data_def split: sum.splits)

lemma snd_generate_issue_code_snippet:
  "snd (generate_issue jl client c sev w) = Inr issue \<Longrightarrow> code_snippet issue = code_text (change c)"
  by (auto simp: generate_issue_def Let_def split: sum.splits dest: issue_from_data_code_snippet)

section \<open>The suggestion step (llm.py)\<close>

text \<open>
  C1. The claim: whatever the external capability does (raise, or return any text,
  texts that decode to a JSON value other than an object included), \<open>generate_issue\<close>
  returns an issue and never raises. The program does not keep this. Only the call and
  the decoding are inside the \<open>try\<close>; when the returned text is the JSON array \<open>[]\<close>,
  \<open>json.loads\<close> succeeds, and line 160 calls \<open>get\<close> on a list: the
  \<open>AttributeError\<close> leaves \<open>generate_issue\<close>.
\<close>

theorem generate_issue_raises_on_json_array:
  "snd (generate_issue json_loads_sample (client_returning doc_array) sample_candidate MEDIUM
          empty_world)
     = Inl (AttributeError ''get'')"
  by code_simp

text \<open>
  C2. When the external call fails (the chain raises, or its text does not decode as
  JSON), \<open>generate_issue\<close> returns the local fallback issue: the summary is the
  candidate's description, the severity is the fallback severity passed in, the
  suggestion is the generic instruction to review and update the documentation, and
  there is no documentation snippet.
\<close>

theorem generate_issue_fallback_on_failure:
  assumes "call_fails jl client c w"
  shows "\<exists>issue. snd (generate_issue jl client c sev w) = Inr issue
           \<and> summary issue = PyStr (description c)
           \<and> severity issue = sev
           \<and> suggestion issue = PyStr ''Review and update related documentation accordingly.''
           \<and> documentation_snippet issue = PyNone"
  by (simp add: snd_generate_issue_failed [OF assms] issue_from_fallback_data)

theorem generate_issue_fallback_on_failure_witness:
  "call_fails json_loads_sample (client_returning ''not json'') sample_candidate empty_world
   \<and> (\<exists>issue. snd (generate_issue json_loads_sample (client_returning ''not json'')
                     sample_candidate CRITICAL empty_world) = Inr issue
          \<and> summary issue = PyStr ''fetch changed but docs/api.md did not''
          \<and> severity issue = CRITICAL
          \<and> suggestion issue = PyStr ''Review and update related documentation accordingly.''
          \<and> documentation_snippet issue = PyNone)"
proof -
  have h: "call_fails json_loads_sample (client_returning ''not json'') sample_candidate
             empty_world"
    by (rule sample_call_undecodable)
  have d: "description sample_candidate = ''fetch changed but docs/api.md did not''"
    by (simp add: sample_candidate_def)
  from generate_issue_fallback_on_failure [OF h, of CRITICAL] h d show ?thesis
    by simp
qed

text \<open>
  C3. The claim: when the response is a JSON object that lacks a required field
  (summary, severity or suggestion), \<open>generate_issue\<close> returns the same local fallback
  issue as after a failed call. It does not. The handler of lines 151 to 158 is not
  entered; lines 160 to 163 settle each field on its own. For the response
  \<open>{"summary": "Renamed fetch to fetch_url"}\<close> the issue keeps the summary of the
  response, and its suggestion is the candidate's description, not the generic
  instruction: it differs from the fallback issue of a failed call.
\<close>

theorem missing_field_mixture_counterexample:
  "json_loads_sample doc_partial = Inr (PyDict [(''summary'', PyStr ''Renamed fetch to fetch_url'')])
   \<and> snd (generate_issue json_loads_sample (client_returning doc_partial) sample_candidate
            MEDIUM empty_world)
       = Inr \<lparr> drift_type = SIGNATURE_CHANGE, severity = MEDIUM,
               file_path = ''pkg/api.py'',
               summary = PyStr ''Renamed fetch to fetch_url'',
               suggestion = PyStr ''fetch changed but docs/api.md did not'',
               code_snippet = ''def fetch_url(url): ...'',
               documentation_snippet = PyNone,
               metadata = [(''provider'', Some ''ChatOllama''), (''symbol'', Some ''fetch'')] \<rparr>
   \<and> snd (generate_issue json_loads_sample (client_returning doc_partial) sample_candidate
            MEDIUM empty_world)
       \<noteq> snd (generate_issue json_loads_sample (client_raising ''connection refused'')
                sample_candidate MEDIUM empty_world)"
  by code_simp

text \<open>
  C3, as the program has it. Let the external capability return a JSON object whose
  \<open>severity\<close> is missing, or a value Python counts as false (null, false, zero,
  empty), or a string. Then \<open>generate_issue\<close> returns an issue, and not the whole
  fallback issue when a required field is missing: each field is settled on its own.
  The summary is the response's \<open>summary\<close> when that is present and true in Python's
  sense, and the candidate's description otherwise; the suggestion likewise is the
  response's \<open>suggestion\<close> or else the candidate's description (not the generic
  instruction). The severity is the one that a \<open>severity\<close> string names once stripped
  and lower-cased (low, medium, critical), and the fallback default when \<open>severity\<close>
  is missing, false or any other string. The documentation snippet is the response's
  \<open>doc_excerpt\<close>, whatever it is, and absent when that is missing.
\<close>

theorem missing_field_defaults_per_field:
  assumes "chain client (calls w) (build_prompt c) = Inr raw"
    and "jl raw = Inr (PyDict kvs)"
    and "map_of kvs ''severity'' = None
         \<or> (\<exists>v. map_of kvs ''severity'' = Some v \<and> (\<not> truthy v \<or> (\<exists>s. v = PyStr s)))"
  shows "\<exists>issue. snd (generate_issue jl client c sev w) = Inr issue
           \<and> summary issue
               = (case map_of kvs ''summary'' of
                    None \<Rightarrow> PyStr (description c)
                  | Some v \<Rightarrow> if truthy v then v else PyStr (description c))
           \<and> suggestion issue
               = (case map_of kvs ''suggestion'' of
                    None \<Rightarrow> PyStr (description c)
                  | Some v \<Rightarrow> if truthy v then v else PyStr (description c))
           \<and> Inr (severity issue)
               = (case map_of kvs ''severity'' of
                    None \<Rightarrow> Inr sev
                  | Some v \<Rightarrow> parse_severity v sev)
           \<and> (map_of kvs ''severity'' = None \<longrightarrow> severity issue = sev)
           \<and> severity issue
               = (case map_of kvs ''severity'' of
                    Some (PyStr s) \<Rightarrow>
                      if str_lower (str_strip s) = ''low'' then LOW
                      else if str_lower (str_strip s) = ''medium'' then MEDIUM
                      else if str_lower (str_strip s) = ''critical'' then CRITICAL
                      else sev
                  | _ \<Rightarrow> sev)
           \<and> documentation_snippet issue
               = (case map_of kvs ''doc_excerpt'' of None \<Rightarrow> PyNone | Some v \<Rightarrow> v)"
proof -
  define sv where "sv = (case map_of kvs ''severity'' of None \<Rightarrow> PyNone | Some v \<Rightarrow> v)"
  define sev' where "sev' =
    (case map_of kvs ''severity'' of
       Some (PyStr s) \<Rightarrow>
         if str_lower (str_strip s) = ''low'' then LOW
         else if str_lower (str_strip s) = ''medium'' then MEDIUM
         else if str_lower (str_strip s) = ''critical'' then CRITICAL
         else sev
     | _ \<Rightarrow> sev)"
  from assms(3) have p: "parse_severity sv sev = Inr sev'"
  proof (elim disjE exE conjE)
    assume "map_of kvs ''severity'' = None"
    then show ?thesis by (simp add: sv_def sev'_def parse_severity_falsy)
  next
    fix v assume v: "map_of kvs ''severity'' = Some v" and "\<not> truthy v"
    then show ?thesis
      by (cases v) (simp_all add: sv_def sev'_def parse_severity_falsy parse_severity_str)
  next
    fix v s assume "map_of kvs ''severity'' = Some v" and "v = PyStr s"
    then show ?thesis by (simp add: sv_def sev'_def parse_severity_str)
  qed
  from assms(1,2)
  have g: "snd (generate_issue jl client c sev w)
          = issue_from_data (chat_model_name client) c sev (PyDict kvs)"
    by (rule snd_generate_issue_decoded)
  from p have i: "issue_from_data (chat_model_name client) c sev (PyDict kvs) =
     Inr \<lparr> drift_type = candidate_drift_type c, severity = sev',
           file_path = change_file_path (change c),
           summary = py_or (case map_of kvs ''summary'' of None \<Rightarrow> PyNone | Some v \<Rightarrow> v)
                       (PyStr (description c)),
           suggestion = py_or (case map_of kvs ''suggestion'' of None \<Rightarrow> PyNone | Some v \<Rightarrow> v)
                          (PyStr (description c)),
           code_snippet = code_text (change c),
           documentation_snippet =
             (case map_of kvs ''doc_excerpt'' of None \<Rightarrow> PyNone | Some v \<Rightarrow> v),
           metadata = [(''provider'', Some (chat_model_name client)),
                       (''symbol'', symbol (change c))] \<rparr>"
    unfolding sv_def by (rule issue_from_dict)
  have q: "(case map_of kvs ''severity'' of None \<Rightarrow> Inr sev | Some v \<Rightarrow> parse_severity v sev)
             = Inr sev'"
    using p by (simp add: sv_def parse_severity_falsy split: option.splits)
  have n: "map_of kvs ''severity'' = None \<longrightarrow> sev' = sev"
    by (simp add: sev'_def)
  show ?thesis
    unfolding g i using q n
    by (simp add: py_or_def sev'_def [symmetric] split: option.splits)
qed

theorem missing_field_defaults_per_field_witness:
  "chain (client_returning doc_partial) (calls empty_world) (build_prompt sample_candidate)
     = Inr doc_partial
   \<and> json_loads_sample doc_partial
       = Inr (PyDict [(''summary'', PyStr ''Renamed fetch to fetch_url'')])
   \<and> map_of [(''summary'', PyStr ''Renamed fetch to fetch_url'')] ''severity'' = None
   \<and> (\<exists>issue. snd (generate_issue json_loads_sample (client_returning doc_partial)
                     sample_candidate MEDIUM empty_world) = Inr issue
          \<and> summary issue = PyStr ''Renamed fetch to fetch_url''
          \<and> suggestion issue = PyStr (description sample_candidate)
          \<and> severity issue = MEDIUM
          \<and> documentation_snippet issue = PyNone)"
proof -
  have r: "chain (client_returning doc_partial) (calls empty_world)
             (build_prompt sample_candidate) = Inr doc_partial"
    by (simp add: client_returning_def)
  have j: "json_loads_sample doc_partial
             = Inr (PyDict [(''summary'', PyStr ''Renamed fetch to fetch_url'')])"
    by code_simp
  have k: "map_of [(''summary'', PyStr ''Renamed fetch to fetch_url'')] ''severity'' = None"
    by simp
  have k': "map_of [(''summary'', PyStr ''Renamed fetch to fetch_url'')] ''severity'' = None
         \<or> (\<exists>v. map_of [(''summary'', PyStr ''Renamed fetch to fetch_url'')] ''severity'' = Some v
                \<and> (\<not> truthy v \<or> (\<exists>s. v = PyStr s)))"
    using k by blast
  from missing_field_defaults_per_field [where jl = json_loads_sample, OF r j k', of MEDIUM]
    r j k show ?thesis
    by simp
qed

text \<open>
  C4. With the fallback severity fixed, two invocations of \<open>generate_issue\<close> on the
  same candidate, both with a failing external call, return the same issue, every field
  equal, the metadata included. The worlds of the two invocations are arbitrary; the
  second may be the one the first left behind.
\<close>

theorem generate_issue_fallback_deterministic:
  assumes "call_fails jl client c w" and "call_fails jl client c w'"
  shows "\<exists>issue. snd (generate_issue jl client c sev w) = Inr issue
           \<and> snd (generate_issue jl client c sev w') = Inr issue"
  by (simp add: snd_generate_issue_failed [OF assms(1)] snd_generate_issue_failed [OF assms(2)]
        issue_from_fallback_data)

theorem generate_issue_fallback_deterministic_witness:
  "call_fails json_loads_sample (client_raising ''connection refused'') sample_candidate
     empty_world
   \<and> call_fails json_loads_sample (client_raising ''connection refused'') sample_candidate
       (fst (generate_issue json_loads_sample (client_raising ''connection refused'')
               sample_candidate MEDIUM empty_world))
   \<and> (\<exists>issue.
         snd (generate_issue json_loads_sample (client_raising ''connection refused'')
                sample_candidate MEDIUM empty_world) = Inr issue
         \<and> snd (generate_issue json_loads_sample (client_raising ''connection refused'')
                  sample_candidate MEDIUM
                  (fst (generate_issue json_loads_sample (client_raising ''connection refused'')
                          sample_candidate MEDIUM empty_world))) = Inr issue)"
proof -
  have h1: "call_fails json_loads_sample (client_raising ''connection refused'')
              sample_candidate empty_world"
    by (rule sample_call_raises)
  have h2: "call_fails json_loads_sample (client_raising ''connection refused'')
              sample_candidate
              (fst (generate_issue json_loads_sample (client_raising ''connection refused'')
                      sample_candidate MEDIUM empty_world))"
    by (rule sample_call_raises)
  from generate_issue_fallback_deterministic [OF h1 h2, of MEDIUM] h1 h2 show ?thesis
    by blast
qed

text \<open>
  C5. \<open>_parse_severity\<close> on the severity string of the response: when the string is
  absent, or is not one of the identifiers low, medium, critical (which the function
  recognises after stripping surrounding white space and lower-casing), the result is
  the fallback default; on an absent value and on every string the function returns a
  severity and raises nothing. The response is not rejected: \<open>generate_issue\<close> returns
  an issue, at the fallback severity.
\<close>

theorem parse_severity_unrecognized_default:
  "parse_severity PyNone d = Inr d
   \<and> (str_lower (str_strip s) \<notin> {''low'', ''medium'', ''critical''}
        \<longrightarrow> parse_severity (PyStr s) d = Inr d)
   \<and> (\<exists>sev. parse_severity (PyStr s) d = Inr sev)
   \<and> (chain client (calls w) (build_prompt c) = Inr raw \<and> jl raw = Inr (PyDict kvs)
        \<and> (map_of kvs ''severity'' = None \<or> map_of kvs ''severity'' = Some PyNone
             \<or> (map_of kvs ''severity'' = Some (PyStr s)
                  \<and> str_lower (str_strip s) \<notin> {''low'', ''medium'', ''critical''}))
        \<longrightarrow> (\<exists>issue. snd (generate_issue jl client c d w) = Inr issue \<and> severity issue = d))"
proof -
  have a: "parse_severity PyNone d = Inr d"
    by (simp add: parse_severity_falsy)
  have b: "str_lower (str_strip s) \<notin> {''low'', ''medium'', ''critical''}
             \<longrightarrow> parse_severity (PyStr s) d = Inr d"
    by (simp add: parse_severity_str)
  have e: "\<exists>sev. parse_severity (PyStr s) d = Inr sev"
    by (simp add: parse_severity_str)
  have g: "\<exists>issue. snd (generate_issue jl client c d w) = Inr issue \<and> severity issue = d"
    if r: "chain client (calls w) (build_prompt c) = Inr raw" "jl raw = Inr (PyDict kvs)"
      and k: "map_of kvs ''severity'' = None \<or> map_of kvs ''severity'' = Some PyNone
             \<or> (map_of kvs ''severity'' = Some (PyStr s)
                  \<and> str_lower (str_strip s) \<notin> {''low'', ''medium'', ''critical''})"
  proof -
    from k b a
    have "parse_severity (case map_of kvs ''severity'' of None \<Rightarrow> PyNone | Some v \<Rightarrow> v) d
            = Inr d"
      by auto
    moreover from r
    have "snd (generate_issue jl client c d w)
            = issue_from_data (chat_model_name client) c d (PyDict kvs)"
      by (rule snd_generate_issue_decoded)
    ultimately show ?thesis
      by (simp add: issue_from_dict)
  qed
  from a b e g show ?thesis by blast
qed

theorem parse_severity_unrecognized_default_witness:
  "str_lower (str_strip ''urgent'') \<notin> {''low'', ''medium'', ''critical''}
   \<and> parse_severity (PyStr ''urgent'') MEDIUM = Inr MEDIUM
   \<and> chain (client_returning doc_urgent) (calls empty_world) (build_prompt sample_candidate)
       = Inr doc_urgent
   \<and> json_loads_sample doc_urgent
       = Inr (PyDict [(''summary'', PyStr ''fetch was renamed''),
                      (''severity'', PyStr ''urgent''),
                      (''suggestion'', PyStr ''Rename fetch in docs/api.md'')])
   \<and> (\<exists>issue. snd (generate_issue json_loads_sample (client_returning doc_urgent)
                     sample_candidate MEDIUM empty_world) = Inr issue
          \<and> severity issue = MEDIUM)"
proof -
  have n: "str_lower (str_strip ''urgent'') \<notin> {''low'', ''medium'', ''critical''}"
    by code_simp
  have r: "chain (client_returning doc_urgent) (calls empty_world)
             (build_prompt sample_candidate) = Inr doc_urgent"
    by (simp add: client_returning_def)
  have j: "json_loads_sample doc_urgent
             = Inr (PyDict [(''summary'', PyStr ''fetch was renamed''),
                            (''severity'', PyStr ''urgent''),
                            (''suggestion'', PyStr ''Rename fetch in docs/api.md'')])"
    by code_simp
  have k: "map_of [(''summary'', PyStr ''fetch was renamed''),
                   (''severity'', PyStr ''urgent''),
                   (''suggestion'', PyStr ''Rename fetch in docs/api.md'')] ''severity''
             = Some (PyStr ''urgent'')"
    by simp
  note t = parse_severity_unrecognized_default [of MEDIUM "''urgent''"
      "client_returning doc_urgent" empty_world sample_candidate doc_urgent json_loads_sample
      "[(''summary'', PyStr ''fetch was renamed''), (''severity'', PyStr ''urgent''),
        (''suggestion'', PyStr ''Rename fetch in docs/api.md'')]"]
  from t n have p: "parse_severity (PyStr ''urgent'') MEDIUM = Inr MEDIUM" by blast
  from t n r j k
  have "\<exists>issue. snd (generate_issue json_loads_sample (client_returning doc_urgent)
                     sample_candidate MEDIUM empty_world) = Inr issue
          \<and> severity issue = MEDIUM"
    by blast
  with n p r j show ?thesis by blast
qed

text \<open>
  C6. The claim: the code text in the request and the \<open>code_snippet\<close> of the issue are
  the change's \<open>new_code\<close> when it is present, otherwise \<open>old_code\<close>, otherwise the
  empty string. Lines 142 and 171 read \<open>new_code or old_code or ""\<close>, and Python's
  \<open>or\<close> passes over an empty string as it passes over \<open>None\<close>. For a change whose
  \<open>new_code\<close> is present and empty and whose \<open>old_code\<close> is not, both the request and
  the \<open>code_snippet\<close> carry the old code.
\<close>

theorem code_snippet_empty_new_code_counterexample:
  "new_code (change removed_candidate) = Some []
   \<and> p_code_change (build_prompt removed_candidate)
       = ''Removed fetch'' @ newline @ newline @ ''def fetch(url): ...''
   \<and> snd (generate_issue json_loads_sample (client_raising ''connection refused'')
            removed_candidate CRITICAL empty_world)
       = Inr \<lparr> drift_type = REMOVED_WITHOUT_DOC_UPDATE, severity = CRITICAL,
               file_path = ''pkg/api.py'',
               summary = PyStr ''fetch was removed but is still documented'',
               suggestion = PyStr ''Review and update related documentation accordingly.'',
               code_snippet = ''def fetch(url): ...'',
               documentation_snippet = PyNone,
               metadata = [(''provider'', Some ''ChatOllama''), (''symbol'', Some ''fetch'')] \<rparr>"
  by code_simp

text \<open>
  C6, as the program has it. The request sent to the external capability holds, after
  the change's summary and a blank line, the same code text as the \<open>code_snippet\<close> of
  the issue produced: \<open>new_code\<close> when it is present and not empty, otherwise
  \<open>old_code\<close> when it is present and not empty, otherwise the empty string. In
  particular, when \<open>new_code\<close> is present and not empty, \<open>code_snippet\<close> is the new
  code text.
\<close>

theorem code_text_prefers_nonempty_new_code:
  "last (calls (fst (generate_issue jl client c sev w))) = build_prompt c
   \<and> p_code_change (build_prompt c)
       = change_summary (change c) @ newline @ newline @ code_text (change c)
   \<and> (snd (generate_issue jl client c sev w) = Inr issue
        \<longrightarrow> code_snippet issue = code_text (change c))
   \<and> code_text (change c)
       = (case new_code (change c) of
            Some s \<Rightarrow> if s \<noteq> [] then s
                      else (case old_code (change c) of Some t \<Rightarrow> t | None \<Rightarrow> [])
          | None \<Rightarrow> (case old_code (change c) of Some t \<Rightarrow> t | None \<Rightarrow> []))
   \<and> (new_code (change c) = Some s \<and> s \<noteq> []
        \<and> snd (generate_issue jl client c sev w) = Inr issue
        \<longrightarrow> code_snippet issue = s)"
proof -
  have a: "last (calls (fst (generate_issue jl client c sev w))) = build_prompt c"
    by (simp add: fst_generate_issue_calls)
  have b: "p_code_change (build_prompt c)
             = change_summary (change c) @ newline @ newline @ code_text (change c)"
    by (simp add: build_prompt_def Let_def)
  have d: "snd (generate_issue jl client c sev w) = Inr issue
             \<longrightarrow> code_snippet issue = code_text (change c)"
    by (simp add: snd_generate_issue_code_snippet)
  have e: "new_code (change c) = Some s \<and> s \<noteq> [] \<longrightarrow> code_text (change c) = s"
    by (simp add: code_text_cases)
  from a b d e code_text_cases [of "change c"] show ?thesis by simp
qed

theorem code_text_prefers_nonempty_new_code_witness:
  "new_code (change sample_candidate) = Some ''def fetch_url(url): ...''
   \<and> ''def fetch_url(url): ...'' \<noteq> []
   \<and> snd (generate_issue json_loads_sample (client_returning doc_urgent) sample_candidate
            MEDIUM empty_world)
       = Inr \<lparr> drift_type = SIGNATURE_CHANGE, severity = MEDIUM,
               file_path = ''pkg/api.py'',
               summary = PyStr ''fetch was renamed'',
               suggestion = PyStr ''Rename fetch in docs/api.md'',
               code_snippet = ''def fetch_url(url): ...'',
               documentation_snippet = PyNone,
               metadata = [(''provider'', Some ''ChatOllama''), (''symbol'', Some ''fetch'')] \<rparr>
   \<and> code_snippet \<lparr> drift_type = SIGNATURE_CHANGE, severity = MEDIUM,
               file_path = ''pkg/api.py'',
               summary = PyStr ''fetch was renamed'',
               suggestion = PyStr ''Rename fetch in docs/api.md'',
               code_snippet = ''def fetch_url(url): ...'',
               documentation_snippet = PyNone,
               metadata = [(''provider'', Some ''ChatOllama''), (''symbol'', Some ''fetch'')] \<rparr>
       = code_text (change sample_candidate)"
proof -
  have n: "new_code (change sample_candidate) = Some ''def fetch_url(url): ...''"
    by (simp add: sample_candidate_def)
  have r: "snd (generate_issue json_loads_sample (client_returning doc_urgent)
                  sample_candidate MEDIUM empty_world)
       = Inr \<lparr> drift_type = SIGNATURE_CHANGE, severity = MEDIUM,
               file_path = ''pkg/api.py'',
               summary = PyStr ''fetch was renamed'',
               suggestion = PyStr ''Rename fetch in docs/api.md'',
               code_snippet = ''def fetch_url(url): ...'',
               documentation_snippet = PyNone,
               metadata = [(''provider'', Some ''ChatOllama''), (''symbol'', Some ''fetch'')] \<rparr>"
    by code_simp
  note t = code_text_prefers_nonempty_new_code [of json_loads_sample
      "client_returning doc_urgent" sample_candidate MEDIUM empty_world _
      "''def fetch_url(url): ...''"]
  from t r n show ?thesis by simp
qed

text \<open>
  C8. The claim: some field of the issue tells an issue produced by the local fallback
  from one produced from a successful response, so that no failing run and succeeding
  run yield the same issue. \<open>DriftIssue\<close> has no such field. For \<open>sample_candidate\<close>
  at severity medium, a response that repeats the candidate's description and the
  generic instruction yields exactly the issue of the run whose chain raised.
\<close>

theorem fallback_indistinguishable_counterexample:
  "call_fails json_loads_sample (client_raising ''connection refused'') sample_candidate
     empty_world
   \<and> \<not> call_fails json_loads_sample (client_returning doc_generic) sample_candidate empty_world
   \<and> snd (generate_issue json_loads_sample (client_raising ''connection refused'')
            sample_candidate MEDIUM empty_world)
       = Inr \<lparr> drift_type = SIGNATURE_CHANGE, severity = MEDIUM,
               file_path = ''pkg/api.py'',
               summary = PyStr ''fetch changed but docs/api.md did not'',
               suggestion = PyStr ''Review and update related documentation accordingly.'',
               code_snippet = ''def fetch_url(url): ...'',
               documentation_snippet = PyNone,
               metadata = [(''provider'', Some ''ChatOllama''), (''symbol'', Some ''fetch'')] \<rparr>
   \<and> snd (generate_issue json_loads_sample (client_returning doc_generic) sample_candidate
            MEDIUM empty_world)
       = snd (generate_issue json_loads_sample (client_raising ''connection refused'')
                sample_candidate MEDIUM empty_world)"
  by code_simp

text \<open>
  C8, as the program has it. An issue produced by the local fallback carries no field
  that marks it: whenever a successful response gives the candidate's description as
  summary, the identifier of the fallback severity as severity, the generic instruction
  as suggestion and no \<open>doc_excerpt\<close>, the succeeding run of the same kind of client
  returns, field for field, the issue of the failing run. The two runs differ in the
  log only: the failing run writes one warning, the succeeding run none.
\<close>

theorem fallback_issue_carries_no_marker:
  assumes "call_fails jl client c w"
    and "chain client' (calls w') (build_prompt c) = Inr raw"
    and "jl' raw = Inr (PyDict kvs)"
    and "map_of kvs ''summary'' = Some (PyStr (description c))"
    and "map_of kvs ''severity'' = Some (PyStr (severity_value sev))"
    and "map_of kvs ''suggestion''
           = Some (PyStr ''Review and update related documentation accordingly.'')"
    and "map_of kvs ''doc_excerpt'' = None \<or> map_of kvs ''doc_excerpt'' = Some PyNone"
    and "chat_model_name client' = chat_model_name client"
  shows "\<exists>issue. snd (generate_issue jl client c sev w) = Inr issue
           \<and> snd (generate_issue jl' client' c sev w') = Inr issue
           \<and> length (warnings (fst (generate_issue jl client c sev w)))
               = Suc (length (warnings w))
           \<and> warnings (fst (generate_issue jl' client' c sev w')) = warnings w'"
proof -
  from assms(2,3)
  have d: "snd (generate_issue jl' client' c sev w')
          = issue_from_data (chat_model_name client') c sev (PyDict kvs)"
    by (rule snd_generate_issue_decoded)
  from assms(2,3)
  have l: "warnings (fst (generate_issue jl' client' c sev w')) = warnings w'"
    by (rule warnings_generate_issue_decoded)
  have p: "parse_severity (case map_of kvs ''severity'' of None \<Rightarrow> PyNone | Some v \<Rightarrow> v) sev
          = Inr sev"
    by (simp add: assms(5) parse_severity_own_value)
  from assms(7) have x: "(case map_of kvs ''doc_excerpt'' of None \<Rightarrow> PyNone | Some v \<Rightarrow> v) = PyNone"
    by auto
  show ?thesis
    by (simp add: d l snd_generate_issue_failed [OF assms(1)]
          warnings_generate_issue_failed [OF assms(1)] issue_from_fallback_data
          issue_from_dict [OF p] assms(4,6,8) x py_or_def)
qed

theorem fallback_issue_carries_no_marker_witness:
  "call_fails json_loads_sample (client_raising ''connection refused'') sample_candidate
     empty_world
   \<and> chain (client_returning doc_generic) (calls empty_world) (build_prompt sample_candidate)
       = Inr doc_generic
   \<and> json_loads_sample doc_generic
       = Inr (PyDict [(''summary'', PyStr ''fetch changed but docs/api.md did not''),
                     (''severity'', PyStr ''medium''),
                     (''suggestion'', PyStr ''Review and update related documentation accordingly.''),
                     (''doc_excerpt'', PyNone)])
   \<and> chat_model_name (client_returning doc_generic)
       = chat_model_name (client_raising ''connection refused'')
   \<and> (\<exists>issue. snd (generate_issue json_loads_sample (client_raising ''connection refused'')
                     sample_candidate MEDIUM empty_world) = Inr issue
          \<and> snd (generate_issue json_loads_sample (client_returning doc_generic)
                   sample_candidate MEDIUM empty_world) = Inr issue)"
proof -
  have f: "call_fails json_loads_sample (client_raising ''connection refused'')
             sample_candidate empty_world"
    by (rule sample_call_raises)
  have r: "chain (client_returning doc_generic) (calls empty_world)
             (build_prompt sample_candidate) = Inr doc_generic"
    by (simp add: client_returning_def)
  have j: "json_loads_sample doc_generic
       = Inr (PyDict [(''summary'', PyStr ''fetch changed but docs/api.md did not''),
                     (''severity'', PyStr ''medium''),
                     (''suggestion'', PyStr ''Review and update related documentation accordingly.''),
                     (''doc_excerpt'', PyNone)])"
    by code_simp
  have n: "chat_model_name (client_returning doc_generic)
             = chat_model_name (client_raising ''connection refused'')"
    by (simp add: client_returning_def client_raising_def)
  have t: "\<exists>issue. snd (generate_issue json_loads_sample (client_raising ''connection refused'')
                     sample_candidate MEDIUM empty_world) = Inr issue
          \<and> snd (generate_issue json_loads_sample (client_returning doc_generic)
                   sample_candidate MEDIUM empty_world) = Inr issue
          \<and> length (warnings (fst (generate_issue json_loads_sample
                 (client_raising ''connection refused'') sample_candidate MEDIUM empty_world)))
               = Suc (length (warnings empty_world))
          \<and> warnings (fst (generate_issue json_loads_sample (client_returning doc_generic)
                 sample_candidate MEDIUM empty_world)) = warnings empty_world"
    by (rule fallback_issue_carries_no_marker
          [where jl = json_loads_sample and jl' = json_loads_sample, OF f r j _ _ _ _ n])
       (simp_all add: sample_candidate_def)
  from f r j n t show ?thesis by blast
qed

text \<open>
  C9. One invocation of \<open>generate_issue\<close> sends at most one request to the external
  capability: the requests on record afterwards are those on record before plus the
  one built from the candidate. When that call fails no second request follows; the
  fallback issue is returned.
\<close>

theorem generate_issue_one_call:
  "calls (fst (generate_issue jl client c sev w)) = calls w @ [build_prompt c]
   \<and> length (calls (fst (generate_issue jl client c sev w))) \<le> length (calls w) + 1
   \<and> (call_fails jl client c w
        \<longrightarrow> (\<exists>issue. snd (generate_issue jl client c sev w) = Inr issue))"
  by (simp add: fst_generate_issue_calls snd_generate_issue_failed issue_from_fallback_data)

theorem generate_issue_one_call_witness:
  "call_fails json_loads_sample (client_raising ''connection refused'') sample_candidate
     empty_world
   \<and> calls (fst (generate_issue json_loads_sample (client_raising ''connection refused'')
                   sample_candidate MEDIUM empty_world)) = [build_prompt sample_candidate]
   \<and> (\<exists>issue. snd (generate_issue json_loads_sample (client_raising ''connection refused'')
                     sample_candidate MEDIUM empty_world) = Inr issue)"
proof -
  have h: "call_fails json_loads_sample (client_raising ''connection refused'')
             sample_candidate empty_world"
    by (rule sample_call_raises)
  from generate_issue_one_call [of json_loads_sample "client_raising ''connection refused''"
      sample_candidate MEDIUM empty_world] h
  show ?thesis by (simp add: empty_world_def)
qed

section \<open>The command line (cli.py) and the configuration (config.py)\<close>

text \<open>
  C7. \<open>_has_critical_issues\<close> is true exactly when some issue of the report has
  severity critical. Whenever \<open>run_cli\<close> returns, its exit code is 1 if that signal is
  true and 0 otherwise; and it does return once the report is there and rendering and
  saving do not raise.
\<close>

theorem run_cli_exit_code:
  "(has_critical_issues report \<longleftrightarrow> (\<exists>issue \<in> set (issues report). severity issue = CRITICAL))
   \<and> (detect env = Inr report \<and> run_cli env = Inr (printed, code)
        \<longrightarrow> code = (if has_critical_issues report then 1 else 0))
   \<and> (detect env = Inr report \<and> render env report = Inr output
        \<and> (save_report_setting env \<longrightarrow> (\<exists>p. save env report = Inr p))
        \<longrightarrow> (\<exists>printed'. run_cli env
                          = Inr (printed', if has_critical_issues report then 1 else 0)))"
  by (auto simp: has_critical_issues_def list_ex_iff run_cli_def split: sum.splits if_splits)

theorem run_cli_exit_code_witness:
  "detect sample_cli_env = Inr sample_report
   \<and> render sample_cli_env sample_report = Inr ''1 issue''
   \<and> \<not> save_report_setting sample_cli_env
   \<and> run_cli sample_cli_env = Inr ([''1 issue''], 1)
   \<and> (\<exists>issue \<in> set (issues sample_report). severity issue = CRITICAL)
   \<and> has_critical_issues sample_report
   \<and> (1 :: int) = (if has_critical_issues sample_report then 1 else 0)"
proof -
  have e: "detect sample_cli_env = Inr sample_report"
    "render sample_cli_env sample_report = Inr ''1 issue''"
    "\<not> save_report_setting sample_cli_env"
    by (simp_all add: sample_cli_env_def)
  have r: "run_cli sample_cli_env = Inr ([''1 issue''], 1)"
    by code_simp
  have c: "\<exists>issue \<in> set (issues sample_report). severity issue = CRITICAL"
    by (simp add: sample_report_def)
  note t = run_cli_exit_code [of sample_report sample_cli_env "[''1 issue'']" 1 "''1 issue''"]
  from t c have h: "has_critical_issues sample_report" by blast
  from t e r have x: "(1 :: int) = (if has_critical_issues sample_report then 1 else 0)"
    by blast
  from e r c h x show ?thesis by blast
qed

text \<open>
  C10. For a policy flag read from the environment, \<open>_env_bool\<close> is true exactly when
  the string, stripped of surrounding white space and lower-cased (in either order), is
  one of 1, true, yes, on. The default is used only when the variable is unset: the
  string \<open>enabled\<close> gives false also where the default is true. The four flags of
  \<open>load_settings\<close> are read this way.
\<close>

theorem env_bool_truthy_strings:
  "env_bool None d = d
   \<and> env_bool (Some v) d = (str_lower (str_strip v) \<in> {''1'', ''true'', ''yes'', ''on''})
   \<and> str_lower (str_strip v) = str_strip (str_lower v)
   \<and> env_bool (Some ''enabled'') True = False
   \<and> auto_ignore_private_functions (load_settings_analysis env)
       = env_bool (env ''AUTO_IGNORE_PRIVATE_FUNCTIONS'') True
   \<and> check_examples (load_settings_analysis env) = env_bool (env ''CHECK_EXAMPLES'') True
   \<and> check_inline_comments (load_settings_analysis env)
       = env_bool (env ''CHECK_INLINE_COMMENTS'') True
   \<and> save_report (load_settings_output path env) = env_bool (env ''SAVE_REPORT'') False"
proof -
  have "str_lower (str_strip ''enabled'') = ''enabled''" by code_simp
  then have "env_bool (Some ''enabled'') True = False" by simp
  then show ?thesis
    by (simp add: strip_lower_commute load_settings_analysis_def load_settings_output_def)
qed

end
